theory Spec2Isabelle
  imports Main "HOL-Library.Sublist"
begin

section \<open>Python strings\<close>

text \<open>
  A Python \<open>str\<close> is a sequence of Unicode code points, and \<open>len\<close> counts code points.
  A code point is modelled as a natural number and a \<open>str\<close> as a list of them;
  \<open>u\<close> turns an ASCII literal of the theory into such a string.
\<close>

type_synonym ustr = "nat list"

definition u :: "string \<Rightarrow> ustr" where
  "u s = map of_char s"

text \<open>
  The functions the scraper takes from the Python library and whose tables are not part
  of the repository are parameters of the model:
  \<^item> \<open>normalize_NFKD\<close> is \<open>unicodedata.normalize('NFKD', _)\<close> on a non-empty string
    (the library returns an empty string unchanged, see \<open>py_normalize\<close>);
  \<^item> \<open>str_lower\<close> is \<open>str.lower\<close> on a non-empty string (the lower case of the empty
    string is the empty string, see \<open>py_lower\<close>);
  \<^item> \<open>urljoin\<close> is \<open>urllib.parse.urljoin\<close>, which may raise (\<open>ValueError\<close>);
  \<^item> \<open>set_slot xs x\<close> is the position at which iterating over \<open>set(xs)\<close> yields \<open>x\<close>:
    the iteration order of a set of strings depends on the interpreter's hash seed,
    so every order must be allowed.

  An exception is a value of \<open>exn\<close>: the classes the scraper can meet, all of them
  subclasses of \<open>Exception\<close>, with the message where the library gives one, and
  \<open>Other_Exception\<close> for any further subclass, by its name. The prints of the
  scraper are the subject of the section on the console.
\<close>

datatype exn =
    AttributeError
  | IndexError
  | ValueError
  | RequestException ustr
  | OSError ustr
  | Other_Exception ustr

record pylib =
  normalize_NFKD :: "ustr \<Rightarrow> ustr"
  str_lower :: "ustr \<Rightarrow> ustr"
  urljoin :: "ustr \<Rightarrow> ustr \<Rightarrow> exn + ustr"
  set_slot :: "ustr list \<Rightarrow> ustr \<Rightarrow> nat"

definition py_normalize :: "pylib \<Rightarrow> ustr \<Rightarrow> ustr" where
  "py_normalize lib text = (if text = [] then [] else normalize_NFKD lib text)"

definition py_lower :: "pylib \<Rightarrow> ustr \<Rightarrow> ustr" where
  "py_lower lib text = (if text = [] then [] else str_lower lib text)"

text \<open>\<open>text.encode('ascii', 'ignore').decode('ascii')\<close>: code points from 128 on are dropped.\<close>

definition ascii_ignore :: "ustr \<Rightarrow> ustr" where
  "ascii_ignore text = filter (\<lambda>c. c < 128) text"

text \<open>
  Whitespace as \<open>str.strip()\<close> and the regular expression class \<open>\s\<close> of a \<open>str\<close> pattern
  see it: tab to carriage return, the four separators 28 to 31, the space, and the
  Unicode spaces.
\<close>

definition is_space :: "nat \<Rightarrow> bool" where
  "is_space c \<longleftrightarrow>
     (9 \<le> c \<and> c \<le> 13) \<or> (28 \<le> c \<and> c \<le> 32) \<or> c = 133 \<or> c = 160 \<or> c = 5760 \<or>
     (8192 \<le> c \<and> c \<le> 8202) \<or> c = 8232 \<or> c = 8233 \<or> c = 8239 \<or> c = 8287 \<or> c = 12288"

text \<open>
  The class \<open>\w\<close> on ASCII text: letters, digits and the underscore. Both cleaning
  functions apply their regular expressions after the text was reduced to ASCII.
\<close>

definition is_word :: "nat \<Rightarrow> bool" where
  "is_word c \<longleftrightarrow> (48 \<le> c \<and> c \<le> 57) \<or> (65 \<le> c \<and> c \<le> 90) \<or> c = 95 \<or> (97 \<le> c \<and> c \<le> 122)"

definition strip :: "ustr \<Rightarrow> ustr" where
  "strip text = rev (dropWhile is_space (rev (dropWhile is_space text)))"

text \<open>
  \<open>re.sub(r'\s+', repl, text)\<close>: scanning from the left, each maximal run of
  whitespace is replaced by \<open>repl\<close>.
\<close>

function re_sub_spaces :: "ustr \<Rightarrow> ustr \<Rightarrow> ustr" where
  "re_sub_spaces repl [] = []"
| "re_sub_spaces repl (c # cs) =
     (if is_space c then repl @ re_sub_spaces repl (dropWhile is_space cs)
      else c # re_sub_spaces repl cs)"
  by pat_completeness auto
termination
  by (relation "measure (\<lambda>(repl, text). length text)")
     (auto simp: length_dropWhile_le less_Suc_eq_le)

section \<open>Text Normalizer\<close>

text \<open>The characters \<open>re.sub(r'[^\w\s-]', '', text)\<close> keeps.\<close>

definition filename_char :: "nat \<Rightarrow> bool" where
  "filename_char c \<longleftrightarrow> is_word c \<or> is_space c \<or> c = 45"

definition clean_filename :: "pylib \<Rightarrow> ustr \<Rightarrow> ustr" where
  "clean_filename lib text =
     (let text = ascii_ignore (py_normalize lib text);
          text = strip (filter filename_char text);
          text = re_sub_spaces (u ''_'') text
      in take 50 text)"

text \<open>The characters \<open>re.sub(r'[^\w\s.,!?\'"-]', '', text)\<close> keeps.\<close>

definition body_char :: "nat \<Rightarrow> bool" where
  "body_char c \<longleftrightarrow> is_word c \<or> is_space c \<or> c \<in> set (u ''.,!?'' @ [39, 34] @ u ''-'')"

text \<open>
  \<open>clean_text(text, for_body)\<close>. The argument may be \<open>None\<close>; \<open>not text\<close> holds for
  \<open>None\<close> and for the empty string.
\<close>

definition clean_text :: "pylib \<Rightarrow> ustr option \<Rightarrow> bool \<Rightarrow> ustr" where
  "clean_text lib text for_body =
     (case text of
        None \<Rightarrow> []
      | Some t \<Rightarrow>
          if t = [] then []
          else
            let t = ascii_ignore (py_normalize lib t);
                t = filter body_char t;
                t = strip (re_sub_spaces (u '' '') t)
            in if for_body then t else strip t)"

section \<open>String operations of the scraper\<close>

text \<open>\<open>sub in text\<close>: the substring test.\<close>

fun py_in :: "ustr \<Rightarrow> ustr \<Rightarrow> bool" where
  "py_in sub [] = (sub = [])"
| "py_in sub (c # cs) = (prefix sub (c # cs) \<or> py_in sub cs)"

text \<open>\<open>text.rstrip("/")\<close>.\<close>

definition rstrip_slash :: "ustr \<Rightarrow> ustr" where
  "rstrip_slash text = rev (dropWhile (\<lambda>c. c = 47) (rev text))"

text \<open>
  \<open>text.split(sep)\<close> for a non-empty separator: the text is cut at each occurrence of
  the separator, found from the left, occurrences not overlapping. The scraper calls
  it with the literals \<open>"//"\<close> and \<open>"/"\<close> only.
\<close>

function py_split_from :: "ustr \<Rightarrow> ustr \<Rightarrow> ustr \<Rightarrow> ustr list" where
  "py_split_from sep piece [] = [piece]"
| "py_split_from sep piece (c # cs) =
     (if sep \<noteq> [] \<and> prefix sep (c # cs)
      then piece # py_split_from sep [] (drop (length sep) (c # cs))
      else py_split_from sep (piece @ [c]) cs)"
  by pat_completeness auto
termination
  by (relation "measure (\<lambda>(sep, piece, text). length text)") auto

definition py_split :: "ustr \<Rightarrow> ustr \<Rightarrow> ustr list" where
  "py_split sep text = py_split_from sep [] text"

text \<open>\<open>xs[:m]\<close> for a Python integer \<open>m\<close>: a negative bound counts from the end.\<close>

definition py_slice_to :: "int \<Rightarrow> 'a list \<Rightarrow> 'a list" where
  "py_slice_to m xs =
     (if 0 \<le> m then take (nat m) xs else take (nat (int (length xs) + m)) xs)"

text \<open>
  \<open>list(set(xs))\<close>: every element once, in the order of the slots the interpreter
  gives them.
\<close>

definition set_to_list :: "pylib \<Rightarrow> ustr list \<Rightarrow> ustr list" where
  "set_to_list lib xs = sort_key (set_slot lib xs) (remdups xs)"

text \<open>\<open>str(n)\<close> for a non-negative integer.\<close>

function str_of_nat :: "nat \<Rightarrow> ustr" where
  "str_of_nat n = (if n < 10 then [48 + n] else str_of_nat (n div 10) @ [48 + n mod 10])"
  by pat_completeness auto
termination
  by (relation "measure (\<lambda>n. n)") auto

declare str_of_nat.simps [simp del]

text \<open>\<open>os.path.join(a, b)\<close> of \<open>posixpath\<close>.\<close>

definition path_join :: "ustr \<Rightarrow> ustr \<Rightarrow> ustr" where
  "path_join a b =
     (if prefix (u ''/'') b then b
      else if a = [] \<or> suffix (u ''/'') a then a @ b
      else a @ u ''/'' @ b)"

section \<open>Parsed pages\<close>

text \<open>
  The tree BeautifulSoup builds with \<open>html.parser\<close>. A tag has its name, its attributes
  with a string value, the token list of its \<open>class\<close> attribute (the parser splits
  this attribute, and \<open>None\<close> says there is none), and its contents. A
  \<open>NavigableString\<close> is a piece of text that \<open>.text\<close> returns. The soup itself is the
  tag at the root; searches look at what is below the tag they start from.
\<close>

datatype node =
    NavigableString ustr
  | Tag ustr "(ustr \<times> ustr) list" "ustr list option" "node list"

fun descendants :: "node \<Rightarrow> node list" where
  "descendants (NavigableString s) = []"
| "descendants (Tag n attrs cls contents) = concat (map (\<lambda>c. c # descendants c) contents)"

fun get_text :: "node \<Rightarrow> ustr" where
  "get_text (NavigableString s) = s"
| "get_text (Tag n attrs cls contents) = concat (map get_text contents)"

fun has_name :: "ustr list \<Rightarrow> node \<Rightarrow> bool" where
  "has_name names (NavigableString s) = False"
| "has_name names (Tag n attrs cls contents) = (n \<in> set names)"

fun tag_name :: "node \<Rightarrow> ustr" where
  "tag_name (NavigableString s) = []"
| "tag_name (Tag n attrs cls contents) = n"

fun attr_get :: "node \<Rightarrow> ustr \<Rightarrow> ustr option" where
  "attr_get (NavigableString s) k = None"
| "attr_get (Tag n attrs cls contents) k = map_of attrs k"

fun class_of :: "node \<Rightarrow> ustr list option" where
  "class_of (NavigableString s) = None"
| "class_of (Tag n attrs cls contents) = cls"

text \<open>\<open>tag.find(name)\<close> and \<open>tag.find_all(names)\<close>.\<close>

definition find_all :: "ustr list \<Rightarrow> node \<Rightarrow> node list" where
  "find_all names root = filter (has_name names) (descendants root)"

definition find_tag :: "ustr \<Rightarrow> node \<Rightarrow> node option" where
  "find_tag n root = List.find (has_name [n]) (descendants root)"

text \<open>\<open>a or b\<close> for two results of \<open>find\<close>: a tag is true, \<open>None\<close> is false.\<close>

definition or_else :: "node option \<Rightarrow> node option \<Rightarrow> node option" where
  "or_else a b = (case a of Some x \<Rightarrow> Some x | None \<Rightarrow> b)"

text \<open>
  The filter \<open>lambda x: x and any(k in x.lower() for k in [...])\<close> of the content
  search. For a \<open>class\<close> attribute BeautifulSoup calls it on each token and then on
  the tokens joined by spaces; for a tag without the attribute it calls it on \<open>None\<close>.
\<close>

definition class_keyword :: "pylib \<Rightarrow> ustr \<Rightarrow> bool" where
  "class_keyword lib x \<longleftrightarrow>
     x \<noteq> [] \<and>
     list_ex (\<lambda>k. py_in k (py_lower lib x))
       [u ''article'', u ''content'', u ''news'', u ''body'']"

fun join_spaces :: "ustr list \<Rightarrow> ustr" where
  "join_spaces [] = []"
| "join_spaces [x] = x"
| "join_spaces (x # y # ys) = x @ u '' '' @ join_spaces (y # ys)"

definition class_matches :: "pylib \<Rightarrow> node \<Rightarrow> bool" where
  "class_matches lib x =
     (case class_of x of
        None \<Rightarrow> False
      | Some tokens \<Rightarrow> list_ex (class_keyword lib) tokens \<or> class_keyword lib (join_spaces tokens))"

definition find_content_div :: "pylib \<Rightarrow> node \<Rightarrow> node option" where
  "find_content_div lib root =
     List.find (\<lambda>x. has_name [u ''div''] x \<and> class_matches lib x) (descendants root)"

section \<open>Article Extractor\<close>

datatype content_element =
    Heading ustr ustr
  | Paragraph ustr
  | Quote ustr

datatype level = INFO | WARNING | ERROR

datatype message =
    Scraping_article ustr
  | Skipping_non_English ustr
  | Insufficient_content ustr nat
  | Scraped ustr nat
  | Error_scraping ustr exn
  | Saved_article ustr
  | Error_saving ustr exn
  | Fetching_from ustr ustr
  | No_valid_links ustr "ustr list"
  | No_content ustr
  | Error_fetching ustr exn

type_synonym log_entry = "level \<times> message"

text \<open>
  What \<open>requests.get\<close>, \<open>raise_for_status\<close>, the decoding and the parser give for one
  request: an exception, or the soup.
\<close>

datatype fetch_result = Raised exn | Parsed node

text \<open>The body of the loop over \<open>content.find_all(["h2", "h3", "p", "blockquote"])\<close>.\<close>

definition extract_element :: "pylib \<Rightarrow> node \<Rightarrow> content_element list" where
  "extract_element lib elem =
     (if tag_name elem \<in> set [u ''h2'', u ''h3''] then
        (let text = clean_text lib (Some (get_text elem)) False
         in if text \<noteq> [] \<and> length text > 10 then [Heading (tag_name elem) text] else [])
      else if tag_name elem = u ''p'' then
        (let text = clean_text lib (Some (get_text elem)) True
         in if text \<noteq> [] \<and> length text > 20 then [Paragraph text] else [])
      else if tag_name elem = u ''blockquote'' then
        (let text = clean_text lib (Some (get_text elem)) True
         in if text \<noteq> [] \<and> length text > 20 then [Quote text] else [])
      else [])"

definition content_root :: "pylib \<Rightarrow> node \<Rightarrow> node" where
  "content_root lib soup =
     (case or_else (find_tag (u ''article'') soup)
             (or_else (find_content_div lib soup) (find_tag (u ''main'') soup)) of
        Some content \<Rightarrow> content
      | None \<Rightarrow> soup)"

definition walk_elements :: "pylib \<Rightarrow> node \<Rightarrow> content_element list" where
  "walk_elements lib soup =
     concat (map (extract_element lib)
       (find_all [u ''h2'', u ''h3'', u ''p'', u ''blockquote''] (content_root lib soup)))"

definition title_elem :: "node \<Rightarrow> node option" where
  "title_elem soup =
     or_else (find_tag (u ''h1'') soup) (or_else (find_tag (u ''title'') soup) (find_tag (u ''h2'') soup))"

definition extract_title :: "pylib \<Rightarrow> node \<Rightarrow> ustr" where
  "extract_title lib soup =
     (case title_elem soup of
        Some e \<Rightarrow> clean_text lib (Some (get_text e)) False
      | None \<Rightarrow> u ''No Title'')"

type_synonym scraped = "(ustr \<times> content_element list) \<times> log_entry list"

text \<open>Lines 93 to 126 of \<open>scrape_article\<close>: title, elements, richness gate.\<close>

definition extract_article :: "pylib \<Rightarrow> ustr \<Rightarrow> node \<Rightarrow> scraped" where
  "extract_article lib url soup =
     (let title = extract_title lib soup;
          elements = walk_elements lib soup
      in if elements = [] \<or> length elements < 2
         then ((title, []), [(WARNING, Insufficient_content url (length elements))])
         else ((title, elements), [(INFO, Scraped title (length elements))]))"

text \<open>
  Lines 87 and 88, the language gate: \<open>True\<close> when the page is to be skipped.
  \<open>soup.find('html')\<close> is \<open>None\<close> on a page without an \<open>html\<close> tag, and \<open>None.get\<close>
  raises \<open>AttributeError\<close>.
\<close>

definition language_gate :: "pylib \<Rightarrow> node \<Rightarrow> exn + bool" where
  "language_gate lib soup =
     (case find_tag (u ''html'') soup of
        None \<Rightarrow> Inl AttributeError
      | Some html \<Rightarrow>
          (let lang = py_lower lib (case attr_get html (u ''lang'') of Some v \<Rightarrow> v | None \<Rightarrow> [])
           in Inr (lang \<noteq> [] \<and> \<not> prefix (u ''en'') lang)))"

text \<open>The body of the \<open>try\<close> of \<open>scrape_article\<close>.\<close>

definition scrape_body :: "pylib \<Rightarrow> ustr \<Rightarrow> fetch_result \<Rightarrow> exn + scraped" where
  "scrape_body lib url response =
     (case response of
        Raised e \<Rightarrow> Inl e
      | Parsed soup \<Rightarrow>
          (case language_gate lib soup of
             Inl e \<Rightarrow> Inl e
           | Inr skip \<Rightarrow>
               if skip
               then Inr ((u ''No Title'', []), [(WARNING, Skipping_non_English url)])
               else Inr (extract_article lib url soup)))"

text \<open>\<open>try: body except Exception as e: handler(e)\<close>; the handler may raise as well.\<close>

definition try_except :: "exn + 'a \<Rightarrow> (exn \<Rightarrow> exn + 'a) \<Rightarrow> exn + 'a" where
  "try_except body handler = (case body of Inl e \<Rightarrow> handler e | Inr v \<Rightarrow> Inr v)"

text \<open>
  \<open>scrape_article(url, source_name)\<close>, given what the request for \<open>url\<close> gives, on a
  console that takes every text: the value returned and the entries logged. The prints
  of lines 79 and 129, through which an exception can leave the function, are in
  \<open>scrape_article_io\<close>.
\<close>

definition scrape_article :: "pylib \<Rightarrow> ustr \<Rightarrow> fetch_result \<Rightarrow> exn + scraped" where
  "scrape_article lib url response =
     (case try_except (scrape_body lib url response)
             (\<lambda>e. Inr ((u ''No Title'', []), [(ERROR, Error_scraping url e)])) of
        Inl e \<Rightarrow> Inl e
      | Inr (result, entries) \<Rightarrow> Inr (result, (INFO, Scraping_article url) # entries))"

section \<open>Link Classifier\<close>

record source =
  name :: ustr
  url :: ustr

definition SOURCES :: "source list" where
  "SOURCES =
     [\<lparr>name = u ''Healthline'', url = u ''https://www.healthline.com/health-news''\<rparr>,
      \<lparr>name = u ''WebMD'', url = u ''https://www.webmd.com/news''\<rparr>,
      \<lparr>name = u ''BBC Health'', url = u ''https://www.bbc.com/news/health''\<rparr>,
      \<lparr>name = u ''The Guardian Health'', url = u ''https://www.theguardian.com/society/health''\<rparr>,
      \<lparr>name = u ''Irish Times Health'', url = u ''https://www.irishtimes.com/health/''\<rparr>,
      \<lparr>name = u ''Sky News Health'', url = u ''https://news.sky.com/topic/health-10041''\<rparr>,
      \<lparr>name = u ''The Local Sweden Health'', url = u ''https://www.thelocal.se/tag/health''\<rparr>,
      \<lparr>name = u ''ANSA English Health'',
        url = u ''https://www.ansa.it/english/news/science_and_health/''\<rparr>,
      \<lparr>name = u ''Medical News Today'', url = u ''https://www.medicalnewstoday.com/news''\<rparr>,
      \<lparr>name = u ''Mayo Clinic News'', url = u ''https://newsnetwork.mayoclinic.org/discussion/''\<rparr>]"

text \<open>
  \<open>text.rstrip("/").split("//")[1].split("/")[0]\<close>: the host of a URL as the scraper
  computes it for the listing URL. The index \<open>[1]\<close> raises \<open>IndexError\<close> on a text
  without \<open>"//"\<close>.
\<close>

definition url_host :: "ustr \<Rightarrow> exn + ustr" where
  "url_host text =
     (case py_split (u ''//'') (rstrip_slash text) of
        scheme # rest # others \<Rightarrow>
          (case py_split (u ''/'') rest of
             host # path \<Rightarrow> Inr host
           | [] \<Rightarrow> Inl IndexError)
      | _ \<Rightarrow> Inl IndexError)"

definition blocklist :: "ustr list" where
  "blocklist =
     [u ''login'', u ''signup'', u ''advert'', u ''privacy'', u ''archive'',
      u ''category'', u ''tag'', u ''account'', u ''settings'', u ''subscribe'', u ''newsletter'',
      u ''visa'', u ''insurance'', u ''podcast'', u ''parsi'', u ''video'', u ''gallery'', u ''comment'',
      u ''default.htm'', u ''page='', u ''index'']"

text \<open>
  The source-specific filters of lines 195 to 216: whether a URL that passed the
  common filter goes to \<open>article_links\<close> (otherwise to \<open>rejected_links\<close>).
\<close>

definition allow_rule :: "pylib \<Rightarrow> source \<Rightarrow> ustr \<Rightarrow> bool" where
  "allow_rule lib source href =
     (if name source = u ''BBC Health'' then
        py_in (u ''health-'') (py_lower lib href) \<and> count_list href 47 \<ge> 4
      else if name source = u ''WebMD'' then
        py_in (u ''/news/'') (py_lower lib href) \<and> count_list href 47 \<ge> 5
      else if name source = u ''The Guardian Health'' then
        py_in (u ''/article/'') (py_lower lib href) \<or> py_in (u ''/202'') (py_lower lib href)
      else
        list_ex (\<lambda>indicator. py_in indicator (py_lower lib href))
          [u ''article'', u ''news/'', u ''story'', u ''202''])"

datatype verdict = Accepted | Rejected | Ignored

text \<open>
  The condition of lines 186 to 193 and the filters below it, for one resolved URL.
  \<open>and\<close> evaluates from the left, so the host of the listing URL is computed only for
  a URL that starts with \<open>http\<close>.
\<close>

definition classify_href :: "pylib \<Rightarrow> source \<Rightarrow> ustr \<Rightarrow> exn + verdict" where
  "classify_href lib source href =
     (if \<not> prefix (u ''http'') href then Inr Ignored
      else
        (case url_host (url source) of
           Inl e \<Rightarrow> Inl e
         | Inr host \<Rightarrow>
             if py_in host href \<and>
                \<not> list_ex (\<lambda>exclude. py_in exclude (py_lower lib href)) blocklist
             then (if allow_rule lib source href then Inr Accepted else Inr Rejected)
             else Inr Ignored))"

text \<open>
  The loop of lines 181 to 216 over the \<open>href\<close> values of the listing page, with
  \<open>article_links\<close> and \<open>rejected_links\<close> as they grow. An exception ends the loop.
\<close>

fun harvest ::
  "pylib \<Rightarrow> source \<Rightarrow> ustr list \<Rightarrow> ustr list \<times> ustr list \<Rightarrow> exn + (ustr list \<times> ustr list)" where
  "harvest lib source [] links = Inr links"
| "harvest lib source (h # hs) (article_links, rejected_links) =
     (case urljoin lib (url source) h of
        Inl e \<Rightarrow> Inl e
      | Inr href \<Rightarrow>
          (case classify_href lib source href of
             Inl e \<Rightarrow> Inl e
           | Inr Accepted \<Rightarrow> harvest lib source hs (article_links @ [href], rejected_links)
           | Inr Rejected \<Rightarrow> harvest lib source hs (article_links, rejected_links @ [href])
           | Inr Ignored \<Rightarrow> harvest lib source hs (article_links, rejected_links)))"

text \<open>Line 218: \<open>list(set(article_links))[:max_articles_per_source]\<close>.\<close>

definition dedupe_cap :: "pylib \<Rightarrow> int \<Rightarrow> ustr list \<Rightarrow> ustr list" where
  "dedupe_cap lib max_articles_per_source article_links =
     py_slice_to max_articles_per_source (set_to_list lib article_links)"

text \<open>
  The Link Classifier: from the \<open>href\<close> values of a listing page to the candidate
  links and the rejected links.
\<close>

definition link_classifier ::
  "pylib \<Rightarrow> source \<Rightarrow> ustr list \<Rightarrow> int \<Rightarrow> exn + (ustr list \<times> ustr list)" where
  "link_classifier lib source hrefs max_articles_per_source =
     (case harvest lib source hrefs ([], []) of
        Inl e \<Rightarrow> Inl e
      | Inr (article_links, rejected_links) \<Rightarrow>
          Inr (dedupe_cap lib max_articles_per_source article_links, rejected_links))"

text \<open>\<open>soup.find_all("a", href=True)\<close> and the \<open>href\<close> of each.\<close>

definition a_hrefs :: "node \<Rightarrow> ustr list" where
  "a_hrefs soup = List.map_filter (\<lambda>a. attr_get a (u ''href'')) (find_all [u ''a''] soup)"

section \<open>Article Writer and Run Orchestrator\<close>

text \<open>
  What the run meets outside the program: the answer to its \<open>n\<close>-th request, the
  outcome of the write of its \<open>n\<close>-th call of \<open>save_article\<close> (\<open>None\<close> is success),
  the clock at the start of the run in the format \<open>%Y%m%d_%H%M%S\<close>, and the
  output directory.
\<close>

record world =
  http_get :: "nat \<Rightarrow> ustr \<Rightarrow> fetch_result"
  write_file :: "nat \<Rightarrow> ustr \<Rightarrow> exn option"
  now_stamp :: ustr
  DESKTOP_PATH :: ustr

record article =
  article_source :: ustr
  article_url :: ustr
  article_title :: ustr
  article_elements :: "content_element list"

text \<open>The arguments \<open>timestamp\<close> and \<open>idx\<close> of one call of \<open>save_article\<close>, and the file name it built.\<close>

record save_call =
  call_timestamp :: ustr
  call_idx :: nat
  txt_filename :: ustr

text \<open>
  The state of a run: the variables \<open>all_articles\<close> and \<open>idx\<close>, the log, the files
  written, and two traces, of the URLs requested and of the calls of \<open>save_article\<close>.
\<close>

record run_state =
  all_articles :: "article list"
  idx :: nat
  log :: "log_entry list"
  files :: "ustr list"
  requests :: "ustr list"
  save_calls :: "save_call list"

definition filename_of :: "pylib \<Rightarrow> world \<Rightarrow> ustr \<Rightarrow> ustr \<Rightarrow> ustr \<Rightarrow> nat \<Rightarrow> ustr" where
  "filename_of lib w source_name title timestamp i =
     path_join (DESKTOP_PATH w)
       (source_name @ u ''_'' @ clean_filename lib title @ u ''_'' @ timestamp @ u ''_'' @
        str_of_nat i @ u ''.txt'')"

text \<open>
  \<open>save_article\<close>: the file name, then the write, which the \<open>try\<close> guards. The text of
  the file is not modelled.
\<close>

definition save_article ::
  "pylib \<Rightarrow> world \<Rightarrow> ustr \<Rightarrow> content_element list \<Rightarrow> ustr \<Rightarrow> ustr \<Rightarrow> ustr \<Rightarrow> nat \<Rightarrow>
   run_state \<Rightarrow> run_state" where
  "save_article lib w title elements source_name link timestamp i st =
     (let file = filename_of lib w source_name title timestamp i;
          outcome = write_file w (length (save_calls st)) file;
          st = st\<lparr>save_calls := save_calls st @
                 [\<lparr>call_timestamp = timestamp, call_idx = i, txt_filename = file\<rparr>]\<rparr>
      in case outcome of
           None \<Rightarrow> st\<lparr>files := files st @ [file], log := log st @ [(INFO, Saved_article file)]\<rparr>
         | Some e \<Rightarrow> st\<lparr>log := log st @ [(ERROR, Error_saving file e)]\<rparr>)"

text \<open>Lines 228 to 241: what the loop does with the result of \<open>scrape_article\<close>.\<close>

definition handle_scraped ::
  "pylib \<Rightarrow> world \<Rightarrow> source \<Rightarrow> ustr \<Rightarrow> ustr \<Rightarrow> ustr \<times> content_element list \<Rightarrow>
   run_state \<Rightarrow> run_state" where
  "handle_scraped lib w source timestamp link result st =
     (case result of (title, elements) \<Rightarrow>
        if elements \<noteq> [] then
          (let st = st\<lparr>all_articles := all_articles st @
                      [\<lparr>article_source = name source, article_url = link,
                        article_title = title, article_elements = elements\<rparr>]\<rparr>;
               st = save_article lib w title elements (name source) link timestamp (idx st) st
           in st\<lparr>idx := idx st + 1\<rparr>)
        else st\<lparr>log := log st @ [(WARNING, No_content link)]\<rparr>)"

text \<open>
  The loop of lines 225 to 242 over the candidate links, on a console that takes every
  text (\<open>process_links_io\<close> follows the prints). The second component is the
  exception that left the loop, if one did.
\<close>

fun process_links ::
  "pylib \<Rightarrow> world \<Rightarrow> source \<Rightarrow> ustr \<Rightarrow> ustr list \<Rightarrow> run_state \<Rightarrow> run_state \<times> exn option" where
  "process_links lib w source timestamp [] st = (st, None)"
| "process_links lib w source timestamp (link # links) st =
     (let response = http_get w (length (requests st)) link;
          st = st\<lparr>requests := requests st @ [link]\<rparr>
      in case scrape_article lib link response of
           Inl e \<Rightarrow> (st, Some e)
         | Inr (result, entries) \<Rightarrow>
             process_links lib w source timestamp links
               (handle_scraped lib w source timestamp link result (st\<lparr>log := log st @ entries\<rparr>)))"

text \<open>The body of the loop over the sources, lines 170 to 247.\<close>

definition process_source ::
  "pylib \<Rightarrow> world \<Rightarrow> int \<Rightarrow> ustr \<Rightarrow> source \<Rightarrow> run_state \<Rightarrow> run_state" where
  "process_source lib w max_articles_per_source timestamp source st =
     (let st = st\<lparr>log := log st @ [(INFO, Fetching_from (name source) (url source))]\<rparr>;
          response = http_get w (length (requests st)) (url source);
          st = st\<lparr>requests := requests st @ [url source]\<rparr>
      in case response of
           Raised e \<Rightarrow> st\<lparr>log := log st @ [(ERROR, Error_fetching (name source) e)]\<rparr>
         | Parsed soup \<Rightarrow>
             (case link_classifier lib source (a_hrefs soup) max_articles_per_source of
                Inl e \<Rightarrow> st\<lparr>log := log st @ [(ERROR, Error_fetching (name source) e)]\<rparr>
              | Inr (article_links, rejected_links) \<Rightarrow>
                  if article_links = [] then
                    st\<lparr>log := log st @
                      [(WARNING, No_valid_links (name source) (take 5 rejected_links))]\<rparr>
                  else
                    (case process_links lib w source timestamp article_links st of
                       (st, None) \<Rightarrow> st
                     | (st, Some e) \<Rightarrow>
                         st\<lparr>log := log st @ [(ERROR, Error_fetching (name source) e)]\<rparr>)))"

fun process_sources ::
  "pylib \<Rightarrow> world \<Rightarrow> int \<Rightarrow> ustr \<Rightarrow> source list \<Rightarrow> run_state \<Rightarrow> run_state" where
  "process_sources lib w max_articles_per_source timestamp [] st = st"
| "process_sources lib w max_articles_per_source timestamp (source # sources) st =
     process_sources lib w max_articles_per_source timestamp sources
       (process_source lib w max_articles_per_source timestamp source st)"

definition initial_state :: run_state where
  "initial_state =
     \<lparr>all_articles = [], idx = 0, log = [], files = [], requests = [], save_calls = []\<rparr>"

text \<open>
  One run of \<open>fetch_health_news\<close>: the timestamp is read once, \<open>idx\<close> starts at 0, the
  sources are visited in the order of \<open>SOURCES\<close>. \<open>fetch_health_news\<close> returns
  \<open>all_articles\<close> of the final state.
\<close>

definition run :: "pylib \<Rightarrow> world \<Rightarrow> int \<Rightarrow> run_state" where
  "run lib w max_articles_per_source =
     process_sources lib w max_articles_per_source (now_stamp w) SOURCES initial_state"

definition fetch_health_news :: "pylib \<Rightarrow> world \<Rightarrow> int \<Rightarrow> article list" where
  "fetch_health_news lib w max_articles_per_source = all_articles (run lib w max_articles_per_source)"

section \<open>The console\<close>

text \<open>
  Next to every log entry the scraper prints the same text, and it prints two texts it
  does not log. \<open>print\<close> raises when standard output does not take the text
  (\<open>UnicodeEncodeError\<close> for a character the encoding of the stream lacks, \<open>OSError\<close>
  for a closed pipe); the \<open>logging\<close> module handles the errors of its handlers itself
  and raises nothing. A console says for each text whether \<open>print\<close> returns (\<open>None\<close>) or
  raises. The functions above are the scraper on a console that takes every text; the
  functions of this section follow the prints, for the question which exception leaves
  \<open>scrape_article\<close> and the loop over the links.
\<close>

datatype console_text =
    Echo message
  | Processing_article ustr
  | Generating_text_file ustr

type_synonym console = "console_text \<Rightarrow> exn option"

text \<open>
  The entries of a branch, each logged and then printed; the first print that raises
  ends it, with the entries logged so far.
\<close>

fun echo :: "console \<Rightarrow> log_entry list \<Rightarrow> log_entry list \<times> exn option" where
  "echo console [] = ([], None)"
| "echo console (entry # entries) =
     (case console (Echo (snd entry)) of
        Some e \<Rightarrow> ([entry], Some e)
      | None \<Rightarrow> (case echo console entries of (logged, r) \<Rightarrow> (entry # logged, r)))"

type_synonym scraped_io = "(exn + ustr \<times> content_element list) \<times> log_entry list"

text \<open>
  The body of the \<open>try\<close> of \<open>scrape_article\<close> with its prints (lines 90, 121 and 125),
  which stand inside the \<open>try\<close>.
\<close>

definition scrape_body_io :: "console \<Rightarrow> pylib \<Rightarrow> ustr \<Rightarrow> fetch_result \<Rightarrow> scraped_io" where
  "scrape_body_io console lib link response =
     (case scrape_body lib link response of
        Inl e \<Rightarrow> (Inl e, [])
      | Inr (result, entries) \<Rightarrow>
          (case echo console entries of
             (logged, None) \<Rightarrow> (Inr result, logged)
           | (logged, Some e) \<Rightarrow> (Inl e, logged)))"

text \<open>
  \<open>scrape_article\<close> with its prints: line 79 stands before the \<open>try\<close>, line 129 in
  the handler. The first component is what the caller sees, \<open>Inl\<close> for an exception that
  leaves the function; the second is what was logged.
\<close>

definition scrape_article_io :: "console \<Rightarrow> pylib \<Rightarrow> ustr \<Rightarrow> fetch_result \<Rightarrow> scraped_io" where
  "scrape_article_io console lib link response =
     (case console (Echo (Scraping_article link)) of
        Some e \<Rightarrow> (Inl e, [(INFO, Scraping_article link)])
      | None \<Rightarrow>
          (case scrape_body_io console lib link response of
             (Inr result, entries) \<Rightarrow> (Inr result, (INFO, Scraping_article link) # entries)
           | (Inl e, entries) \<Rightarrow>
               (case console (Echo (Error_scraping link e)) of
                  None \<Rightarrow>
                    (Inr (u ''No Title'', []),
                     (INFO, Scraping_article link) # entries @ [(ERROR, Error_scraping link e)])
                | Some e' \<Rightarrow>
                    (Inl e',
                     (INFO, Scraping_article link) # entries @ [(ERROR, Error_scraping link e)]))))"

text \<open>
  \<open>save_article\<close> with its prints: lines 138 and 158 inside the \<open>try\<close>, line 161 in
  the handler.
\<close>

definition save_article_io ::
  "console \<Rightarrow> pylib \<Rightarrow> world \<Rightarrow> ustr \<Rightarrow> content_element list \<Rightarrow> ustr \<Rightarrow> ustr \<Rightarrow> ustr \<Rightarrow>
   nat \<Rightarrow> run_state \<Rightarrow> run_state \<times> exn option" where
  "save_article_io console lib w title elements source_name link timestamp i st =
     (let file = filename_of lib w source_name title timestamp i;
          outcome = write_file w (length (save_calls st)) file;
          st = st\<lparr>save_calls := save_calls st @
                 [\<lparr>call_timestamp = timestamp, call_idx = i, txt_filename = file\<rparr>]\<rparr>;
          written = st\<lparr>files := files st @ [file], log := log st @ [(INFO, Saved_article file)]\<rparr>;
          body =
            (case console (Generating_text_file file) of
               Some e \<Rightarrow> (st, Some e)
             | None \<Rightarrow>
                 (case outcome of
                    Some e \<Rightarrow> (st, Some e)
                  | None \<Rightarrow> (written, console (Echo (Saved_article file)))))
      in case body of
           (st, None) \<Rightarrow> (st, None)
         | (st, Some e) \<Rightarrow>
             (st\<lparr>log := log st @ [(ERROR, Error_saving file e)]\<rparr>,
              console (Echo (Error_saving file e))))"

text \<open>
  The loop over the candidate links with its prints: line 226 at the start of the body
  and line 241, neither of them in a \<open>try\<close> of the loop.
\<close>

fun process_links_io ::
  "console \<Rightarrow> pylib \<Rightarrow> world \<Rightarrow> source \<Rightarrow> ustr \<Rightarrow> ustr list \<Rightarrow> run_state \<Rightarrow>
   run_state \<times> exn option" where
  "process_links_io console lib w source timestamp [] st = (st, None)"
| "process_links_io console lib w source timestamp (link # links) st =
     (case console (Processing_article link) of
        Some e \<Rightarrow> (st, Some e)
      | None \<Rightarrow>
          (let response = http_get w (length (requests st)) link;
               st = st\<lparr>requests := requests st @ [link]\<rparr>
           in case scrape_article_io console lib link response of
                (Inl e, entries) \<Rightarrow> (st\<lparr>log := log st @ entries\<rparr>, Some e)
              | (Inr (title, elements), entries) \<Rightarrow>
                  (let st = st\<lparr>log := log st @ entries\<rparr>
                   in if elements \<noteq> [] then
                        (case save_article_io console lib w title elements (name source) link
                                timestamp (idx st)
                                (st\<lparr>all_articles := all_articles st @
                                    [\<lparr>article_source = name source, article_url = link,
                                      article_title = title, article_elements = elements\<rparr>]\<rparr>) of
                           (st, Some e) \<Rightarrow> (st, Some e)
                         | (st, None) \<Rightarrow>
                             process_links_io console lib w source timestamp links
                               (st\<lparr>idx := idx st + 1\<rparr>))
                      else
                        (let st = st\<lparr>log := log st @ [(WARNING, No_content link)]\<rparr>
                         in case console (Echo (No_content link)) of
                              Some e \<Rightarrow> (st, Some e)
                            | None \<Rightarrow> process_links_io console lib w source timestamp links st))))"

section \<open>Example inputs\<close>

text \<open>
  Pages, listings and links at which the model is evaluated below. The pages are
  given as the parser's trees; the URL of every example is ASCII.
\<close>

definition page_no_html :: node where
  "page_no_html =
     Tag (u ''[document]'') [] None
       [Tag (u ''h1'') [] None [NavigableString (u ''Health report'')],
        Tag (u ''p'') [] None [NavigableString (u ''This is paragraph one ok.'')],
        Tag (u ''p'') [] None [NavigableString (u ''This is paragraph two ok.'')]]"

definition blank_h1 :: node where
  "blank_h1 = Tag (u ''h1'') [] None [NavigableString (u ''  '')]"

definition page_blank_title :: node where
  "page_blank_title =
     Tag (u ''[document]'') [] None
       [Tag (u ''html'') [(u ''lang'', u ''en'')] None
          [Tag (u ''body'') [] None
             [blank_h1,
              Tag (u ''p'') [] None [NavigableString (u ''This is paragraph one ok.'')],
              Tag (u ''p'') [] None [NavigableString (u ''This is paragraph two ok.'')]]]]"


definition page_two_paragraphs :: node where
  "page_two_paragraphs =
     Tag (u ''[document]'') [] None
       [Tag (u ''html'') [(u ''lang'', u ''en-GB'')] None
          [Tag (u ''body'') [] None
             [Tag (u ''h1'') [] None [NavigableString (u ''Test, Article!!'')],
              Tag (u ''p'') [] None [NavigableString (u ''This is paragraph one ok.'')],
              Tag (u ''p'') [] None [NavigableString (u ''This is paragraph two ok.'')]]]]"

definition french_html :: node where
  "french_html =
     Tag (u ''html'') [(u ''lang'', u ''FR'')] None
       [Tag (u ''body'') [] None
          [Tag (u ''h1'') [] None [NavigableString (u ''Rapport de sante'')],
           Tag (u ''p'') [] None [NavigableString (u ''This is paragraph one ok.'')],
           Tag (u ''p'') [] None [NavigableString (u ''This is paragraph two ok.'')]]]"

definition page_french :: node where
  "page_french = Tag (u ''[document]'') [] None [french_html]"

definition plain_html :: node where
  "plain_html =
     Tag (u ''html'') [] None
       [Tag (u ''body'') [] None
          [Tag (u ''h1'') [] None [NavigableString (u ''Health report'')],
           Tag (u ''p'') [] None [NavigableString (u ''This is paragraph one ok.'')],
           Tag (u ''p'') [] None [NavigableString (u ''This is paragraph two ok.'')]]]"

definition page_no_lang :: node where
  "page_no_lang = Tag (u ''[document]'') [] None [plain_html]"

definition healthline :: source where
  "healthline = \<lparr>name = u ''Healthline'', url = u ''https://www.healthline.com/health-news''\<rparr>"

definition ten_hrefs :: "ustr list" where
  "ten_hrefs =
     [u ''https://www.healthline.com/login'',
      u ''https://www.healthline.com/health-news/new-study-on-sleep'',
      u ''https://www.healthline.com/signup'',
      u ''https://www.healthline.com/privacy-policy'',
      u ''https://www.healthline.com/health-news/story-of-a-cure'',
      u ''https://www.healthline.com/newsletter'',
      u ''https://www.healthline.com/health-news/video/1'',
      u ''https://www.healthline.com/category/fitness'',
      u ''https://www.healthline.com/health/article-on-diet-2024'',
      u ''https://www.healthline.com/podcast/episode-1'']"

definition three_links :: "ustr list" where
  "three_links =
     [u ''https://www.healthline.com/health-news/new-study-on-sleep'',
      u ''https://www.healthline.com/health-news/story-of-a-cure'',
      u ''https://www.healthline.com/health/article-on-diet-2024'']"

definition about_link :: ustr where
  "about_link = u ''https://www.healthline.com/about''"

definition listing_page :: node where
  "listing_page =
     Tag (u ''[document]'') [] None
       [Tag (u ''html'') [(u ''lang'', u ''en'')] None
          [Tag (u ''body'') [] None
             [Tag (u ''a'') [(u ''href'', u ''https://www.healthline.com/health-news/new-study-on-sleep'')]
                None [NavigableString (u ''Sleep'')],
              Tag (u ''a'') [(u ''href'', about_link)] None [NavigableString (u ''About'')],
              Tag (u ''a'') [] None [NavigableString (u ''Top'')],
              Tag (u ''a'') [(u ''href'', u ''https://www.healthline.com/health-news/story-of-a-cure'')]
                None [NavigableString (u ''Cure'')],
              Tag (u ''a'') [(u ''href'', u ''https://www.healthline.com/login'')] None
                [NavigableString (u ''Log in'')]]]]"

definition two_links :: "ustr list" where
  "two_links =
     [u ''https://www.healthline.com/health-news/new-study-on-sleep'',
      u ''https://www.healthline.com/health-news/story-of-a-cure'']"

text \<open>
  A world for a run: the listing URL of Healthline answers with the listing page, its
  two article links answer with the page of two paragraphs, every other request
  fails; the first write fails, the later ones succeed.
\<close>

definition example_world :: world where
  "example_world =
     \<lparr>http_get = (\<lambda>n link.
         if link = url healthline then Parsed listing_page
         else if link \<in> set two_links then Parsed page_two_paragraphs
         else Raised (RequestException (u ''connection refused''))),
      write_file = (\<lambda>n file. if n = 0 then Some (OSError (u ''disk full'')) else None),
      now_stamp = u ''20240101_120000'',
      DESKTOP_PATH = u ''/home/pharm/Desktop/HealthNewsLinks''\<rparr>"

text \<open>
  Two consoles: one that takes every text, and one with an encoding of 256 characters
  (as \<open>latin-1\<close>), which takes a text when all its characters are below 256. The
  strings a text is made of decide; the numbers in it are digits. A link with a
  rightwards arrow (code point 8594) in its path is not among them.
\<close>

fun exn_text :: "exn \<Rightarrow> ustr" where
  "exn_text (RequestException s) = s"
| "exn_text (OSError s) = s"
| "exn_text (Other_Exception s) = s"
| "exn_text e = []"

fun message_texts :: "message \<Rightarrow> ustr list" where
  "message_texts (Scraping_article link) = [link]"
| "message_texts (Skipping_non_English link) = [link]"
| "message_texts (Insufficient_content link n) = [link]"
| "message_texts (Scraped title n) = [title]"
| "message_texts (Error_scraping link e) = [link, exn_text e]"
| "message_texts (Saved_article file) = [file]"
| "message_texts (Error_saving file e) = [file, exn_text e]"
| "message_texts (Fetching_from source_name link) = [source_name, link]"
| "message_texts (No_valid_links source_name links) = source_name # links"
| "message_texts (No_content link) = [link]"
| "message_texts (Error_fetching source_name e) = [source_name, exn_text e]"

fun console_texts :: "console_text \<Rightarrow> ustr list" where
  "console_texts (Echo m) = message_texts m"
| "console_texts (Processing_article link) = [link]"
| "console_texts (Generating_text_file file) = [file]"

definition latin1_console :: console where
  "latin1_console t =
     (if list_all (list_all (\<lambda>c. c < 256)) (console_texts t) then None
      else Some (Other_Exception (u ''UnicodeEncodeError'')))"

definition utf8_console :: console where
  "utf8_console t = None"

definition arrow_link :: ustr where
  "arrow_link = u ''https://www.healthline.com/health-news/heat'' @ [8594] @ u ''stroke''"

section \<open>Notions used in the proofs\<close>


text \<open>
  What holds of every call of \<open>save_article\<close> in a run: it received the timestamp of
  the run, and the name of its file ends with an underscore, the index of the call and
  \<open>.txt\<close>. The invariant of the run: the calls so far received the indices
  \<open>0, 1, ...\<close> up to the current value of \<open>idx\<close>.
\<close>

definition named_with :: "ustr \<Rightarrow> save_call \<Rightarrow> bool" where
  "named_with timestamp c \<longleftrightarrow>
     call_timestamp c = timestamp \<and>
     (\<exists>pre. txt_filename c = pre @ u ''_'' @ str_of_nat (call_idx c) @ u ''.txt'')"

definition run_invariant :: "ustr \<Rightarrow> run_state \<Rightarrow> bool" where
  "run_invariant timestamp st \<longleftrightarrow>
     map call_idx (save_calls st) = [0..<idx st] \<and>
     list_all (named_with timestamp) (save_calls st)"

text \<open>
  The specification's wording of the filename normalizer (section 4.1), step by step:
  normalize and strip to ASCII, remove every character outside word characters,
  whitespace and hyphen, collapse runs of whitespace to single underscores, truncate to
  50 characters. \<open>collapse_runs\<close> says what collapsing is without a scanner: a
  whitespace character followed by another one contributes nothing, the last one of a
  run contributes the replacement.
\<close>

fun collapse_runs :: "ustr \<Rightarrow> ustr \<Rightarrow> ustr" where
  "collapse_runs repl [] = []"
| "collapse_runs repl [c] = (if is_space c then repl else [c])"
| "collapse_runs repl (c # d # cs) =
     (if is_space c \<and> is_space d then collapse_runs repl (d # cs)
      else (if is_space c then repl else [c]) @ collapse_runs repl (d # cs))"

definition normalizeForFilename_spec :: "pylib \<Rightarrow> ustr \<Rightarrow> ustr" where
  "normalizeForFilename_spec lib text =
     take 50 (collapse_runs (u ''_'')
       (filter filename_char (ascii_ignore (py_normalize lib text))))"

text \<open>The character set \<open>[A-Za-z0-9_-]\<close>.\<close>

definition filename_safe :: "nat \<Rightarrow> bool" where
  "filename_safe c \<longleftrightarrow>
     (65 \<le> c \<and> c \<le> 90) \<or> (97 \<le> c \<and> c \<le> 122) \<or> (48 \<le> c \<and> c \<le> 57) \<or> c = 95 \<or> c = 45"

section \<open>The library on ASCII inputs\<close>

text \<open>
  The examples of this theory are ASCII strings and absolute URLs. On such inputs the
  library functions are known without their tables: NFKD leaves ASCII text unchanged,
  \<open>lower\<close> maps \<open>A-Z\<close> to \<open>a-z\<close>, and \<open>urljoin\<close> returns an absolute \<open>https\<close> URL
  with a host as it is. The iteration order of a set is arbitrary; the examples take
  the order of the list, which has no duplicates there, where not said otherwise.
  \<open>ascii_lib\<close> is used at concrete inputs only.
\<close>

definition ascii_lower :: "nat \<Rightarrow> nat" where
  "ascii_lower c = (if 65 \<le> c \<and> c \<le> 90 then c + 32 else c)"

definition ascii_lib :: pylib where
  "ascii_lib = \<lparr> normalize_NFKD = (\<lambda>text. text), str_lower = map ascii_lower,
                 urljoin = (\<lambda>base href. Inr href), set_slot = (\<lambda>xs x. 0) \<rparr>"

section \<open>Properties of the Text Normalizer\<close>

lemma dropWhile_strip: "dropWhile is_space (strip t) = strip t"
proof (cases "dropWhile is_space t")
  case Nil
  show ?thesis unfolding strip_def Nil by simp
next
  case (Cons x xs)
  then have nx: "\<not> is_space x"
    by (metis hd_dropWhile list.sel(1) list.distinct(1))
  have "dropWhile is_space (rev xs @ [x]) = dropWhile is_space (rev xs) @ [x]"
    using nx by (induction "rev xs" arbitrary: xs) (auto simp: dropWhile_append)
  then have "strip t = x # rev (dropWhile is_space (rev xs))"
    using Cons by (simp add: strip_def)
  then show ?thesis using nx by simp
qed

lemma strip_strip: "strip (strip t) = strip t"
proof -
  have "rev (strip t) = dropWhile is_space (rev (dropWhile is_space t))"
    by (simp add: strip_def)
  then have "dropWhile is_space (rev (strip t)) = rev (strip t)"
    by simp
  then show ?thesis
    unfolding strip_def[of "strip t"] dropWhile_strip by simp
qed

lemma set_strip: "set (strip t) \<subseteq> set t"
  unfolding strip_def by (auto dest!: set_dropWhileD)

lemma set_re_sub_spaces:
  "set (re_sub_spaces repl t) \<subseteq> set repl \<union> {c \<in> set t. \<not> is_space c}"
  by (induction repl t rule: re_sub_spaces.induct) (auto dest!: set_dropWhileD)

lemma collapse_runs_space:
  "is_space c \<Longrightarrow>
   collapse_runs repl (c # cs) = repl @ collapse_runs repl (dropWhile is_space cs)"
proof (induction cs arbitrary: c)
  case Nil
  then show ?case by simp
next
  case (Cons d ds)
  then show ?case by (cases ds) auto
qed

lemma collapse_runs_nonspace:
  "\<not> is_space c \<Longrightarrow> collapse_runs repl (c # cs) = c # collapse_runs repl cs"
  by (cases cs) auto

lemma re_sub_spaces_collapse: "re_sub_spaces repl t = collapse_runs repl t"
  by (induction repl t rule: re_sub_spaces.induct)
     (simp_all add: collapse_runs_space collapse_runs_nonspace)

lemma clean_filename_chars: "c \<in> set (clean_filename lib t) \<Longrightarrow> filename_safe c"
proof -
  assume "c \<in> set (clean_filename lib t)"
  then have "c \<in> set (re_sub_spaces (u ''_'')
      (strip (filter filename_char (ascii_ignore (py_normalize lib t)))))"
    by (auto simp: clean_filename_def Let_def dest: in_set_takeD)
  then have "c \<in> set (u ''_'') \<or>
      (c \<in> set (strip (filter filename_char (ascii_ignore (py_normalize lib t)))) \<and> \<not> is_space c)"
    using set_re_sub_spaces by fastforce
  then have "c = 95 \<or> (filename_char c \<and> \<not> is_space c)"
    using set_strip by (fastforce simp: u_def)
  then show "filename_safe c"
    by (auto simp: filename_char_def filename_safe_def is_word_def)
qed

text \<open>
  C7. In body mode and in title mode \<open>clean_text\<close> returns the same string, for every
  input; for \<open>None\<close> and for the empty string both modes return the empty string (the
  model has no raising branch on that path).
\<close>

theorem clean_text_modes_agree:
  "clean_text lib t True = clean_text lib t False \<and>
   clean_text lib None b = [] \<and> clean_text lib (Some []) b = []"
  by (simp add: clean_text_def strip_strip Let_def split: option.splits)

text \<open>
  C6, as stated: every run of whitespace of the input becomes one underscore, that is,
  \<open>clean_filename\<close> computes what the specification's four steps compute. It does not:
  the code trims leading and trailing whitespace before it collapses, so the
  leading space of \<open>" a"\<close> disappears instead of becoming an underscore.
\<close>

theorem clean_filename_leading_space_counterexample:
  "clean_filename ascii_lib (u '' a'') = u ''a'' \<and>
   normalizeForFilename_spec ascii_lib (u '' a'') = u ''_a'' \<and>
   clean_filename ascii_lib (u '' a'') \<noteq> normalizeForFilename_spec ascii_lib (u '' a'')"
  by (simp add: clean_filename_def normalizeForFilename_spec_def ascii_lib_def u_def
      ascii_ignore_def py_normalize_def strip_def filename_char_def is_word_def is_space_def)

text \<open>
  C6, amended: the output of \<open>clean_filename\<close> has at most 50 characters, all of them in
  \<open>[A-Za-z0-9_-]\<close>; the empty string maps to the empty string; and the output is the
  first 50 characters of the text in which every run of whitespace that is left after
  the removal of the other characters and after trimming both ends is collapsed to one
  underscore. The function is deterministic, being a function of the library and the
  text.
\<close>

theorem clean_filename_safe:
  "length (clean_filename lib t) \<le> 50 \<and>
   list_all filename_safe (clean_filename lib t) \<and>
   clean_filename lib [] = [] \<and>
   clean_filename lib t =
     take 50 (collapse_runs (u ''_'')
       (strip (filter filename_char (ascii_ignore (py_normalize lib t)))))"
proof -
  have "length (clean_filename lib t) \<le> 50"
    by (simp add: clean_filename_def Let_def)
  moreover have "list_all filename_safe (clean_filename lib t)"
    by (simp add: list_all_iff clean_filename_chars)
  moreover have "clean_filename lib [] = []"
    by (simp add: clean_filename_def py_normalize_def ascii_ignore_def strip_def)
  moreover have "clean_filename lib t =
     take 50 (collapse_runs (u ''_'')
       (strip (filter filename_char (ascii_ignore (py_normalize lib t)))))"
    by (simp add: clean_filename_def Let_def re_sub_spaces_collapse)
  ultimately show ?thesis by simp
qed

section \<open>Properties of the Article Extractor\<close>

lemma scrape_article_cases:
  "scrape_article lib link response =
     Inr (case scrape_body lib link response of
            Inl e \<Rightarrow> ((u ''No Title'', []), [(INFO, Scraping_article link), (ERROR, Error_scraping link e)])
          | Inr (result, entries) \<Rightarrow> (result, (INFO, Scraping_article link) # entries))"
  by (simp add: scrape_article_def try_except_def split: sum.splits prod.splits)

lemma handle_scraped_empty:
  "handle_scraped lib w source timestamp link (title, []) st =
     st\<lparr>log := log st @ [(WARNING, No_content link)]\<rparr>"
  by (simp add: handle_scraped_def)

lemma requests_save_article:
  "requests (save_article lib w title elements source_name link timestamp i st) = requests st"
  by (simp add: save_article_def Let_def split: option.splits)

lemma requests_handle_scraped:
  "requests (handle_scraped lib w source timestamp link result st) = requests st"
  by (cases result) (simp add: handle_scraped_def Let_def requests_save_article)

lemma process_links_completes:
  "\<exists>st'. process_links lib w source timestamp links st = (st', None) \<and>
         requests st' = requests st @ links"
proof (induction links arbitrary: st)
  case Nil
  then show ?case by simp
next
  case (Cons link links)
  obtain result entries where
    r: "scrape_article lib link (http_get w (length (requests st)) link) = Inr (result, entries)"
    using scrape_article_cases by (metis surj_pair)
  let ?st = "handle_scraped lib w source timestamp link result
               (st\<lparr>requests := requests st @ [link], log := log st @ entries\<rparr>)"
  from Cons.IH[of ?st] obtain st' where
    "process_links lib w source timestamp links ?st = (st', None)"
    "requests st' = requests ?st @ links" by blast
  then show ?case
    using r by (simp add: Let_def requests_handle_scraped)
qed

lemma scrape_article_Parsed:
  "scrape_article lib link (Parsed soup) =
     Inr (case language_gate lib soup of
            Inl e \<Rightarrow> ((u ''No Title'', []),
                       [(INFO, Scraping_article link), (ERROR, Error_scraping link e)])
          | Inr skip \<Rightarrow>
              if skip then ((u ''No Title'', []),
                            [(INFO, Scraping_article link), (WARNING, Skipping_non_English link)])
              else (fst (extract_article lib link soup),
                    (INFO, Scraping_article link) # snd (extract_article lib link soup)))"
  by (simp add: scrape_article_cases scrape_body_def split: sum.splits prod.splits)

lemma fst_extract_article:
  "fst (extract_article lib link soup) =
     (extract_title lib soup,
      if length (walk_elements lib soup) < 2 then [] else walk_elements lib soup)"
  by (auto simp: extract_article_def Let_def)

lemmas page_eval =
  u_def find_tag_def find_all_def language_gate_def scrape_body_def scrape_article_def
  try_except_def extract_article_def extract_title_def title_elem_def or_else_def
  walk_elements_def content_root_def find_content_div_def class_matches_def class_keyword_def
  extract_element_def clean_text_def py_normalize_def py_lower_def ascii_ignore_def
  body_char_def strip_def is_word_def is_space_def ascii_lib_def ascii_lower_def Let_def

lemma echo_accepting: "echo (\<lambda>t. None) entries = (entries, None)"
  by (induction entries) simp_all

lemma scrape_article_io_accepting:
  "scrape_article lib link response = Inr (the_result, entries) \<Longrightarrow>
   scrape_article_io (\<lambda>t. None) lib link response = (Inr the_result, entries)"
  by (auto simp: scrape_article_cases scrape_article_io_def scrape_body_io_def echo_accepting
      split: sum.splits prod.splits)

lemma save_article_io_accepting:
  "save_article_io (\<lambda>t. None) lib w title elements source_name link timestamp i st =
     (save_article lib w title elements source_name link timestamp i st, None)"
  by (simp add: save_article_io_def save_article_def Let_def split: option.splits)

lemma idx_save_article:
  "idx (save_article lib w title elements source_name link timestamp i st) = idx st"
  by (simp add: save_article_def Let_def split: option.splits)

lemma process_links_io_accepting:
  "process_links_io (\<lambda>t. None) lib w source timestamp links st =
     process_links lib w source timestamp links st"
proof (induction links arbitrary: st)
  case Nil
  then show ?case by simp
next
  case (Cons link links)
  obtain the_result entries where
    r: "scrape_article lib link (http_get w (length (requests st)) link) = Inr (the_result, entries)"
    using scrape_article_cases by (metis surj_pair)
  obtain title elements where t: "the_result = (title, elements)" by (cases the_result)
  have io: "scrape_article_io (\<lambda>t. None) lib link (http_get w (length (requests st)) link) =
      (Inr (title, elements), entries)"
    using scrape_article_io_accepting[OF r] t by simp
  show ?case
    using Cons.IH r t io
    by (simp add: Let_def handle_scraped_def save_article_io_accepting idx_save_article)
qed

lemma accepting_console: "\<forall>t. console t = None \<Longrightarrow> console = (\<lambda>t. None)"
  by (rule ext) simp

lemma scrape_body_io_Inl:
  "scrape_body lib link response = Inl e0 \<Longrightarrow>
   scrape_body_io console lib link response = (Inl e0, [])"
  by (simp add: scrape_body_io_def)

lemma fst_scrape_article_io:
  "fst (scrape_article_io console lib link response) =
     (case console (Echo (Scraping_article link)) of
        Some e \<Rightarrow> Inl e
      | None \<Rightarrow>
          (case fst (scrape_body_io console lib link response) of
             Inr the_result \<Rightarrow> Inr the_result
           | Inl e0 \<Rightarrow>
               (case console (Echo (Error_scraping link e0)) of
                  None \<Rightarrow> Inr (u ''No Title'', [])
                | Some e \<Rightarrow> Inl e)))"
  by (simp add: scrape_article_io_def split: option.splits prod.splits sum.splits)

text \<open>
  C8, as stated: for every URL and every outcome of the request no exception leaves
  \<open>scrape_article\<close>, so the loop over the links always goes on. On a console with an
  encoding of 256 characters and a link with a rightwards arrow, the print of line 79,
  before the \<open>try\<close>, raises \<open>UnicodeEncodeError\<close>, which leaves the function; in the
  loop the print of line 226 raises it before the first request, and the loop is left
  with the second link never requested.
\<close>

theorem console_rejects_link_counterexample:
  "scrape_article_io latin1_console ascii_lib arrow_link (Parsed page_two_paragraphs) =
     (Inl (Other_Exception (u ''UnicodeEncodeError'')), [(INFO, Scraping_article arrow_link)]) \<and>
   process_links_io latin1_console ascii_lib example_world healthline (u ''20240101_120000'')
     [arrow_link, u ''https://www.healthline.com/health-news/story-of-a-cure''] initial_state =
     (initial_state, Some (Other_Exception (u ''UnicodeEncodeError'')))"
proof -
  have "\<not> list_all (\<lambda>c. c < 256) arrow_link"
    by (simp add: arrow_link_def)
  then show ?thesis
    by (simp add: scrape_article_io_def latin1_console_def)
qed

text \<open>
  C8, amended: for every URL and every outcome of the request, an exception leaves
  \<open>scrape_article\<close> exactly when the console rejects the text printed at line 79, or
  the body of the \<open>try\<close> fails and the console rejects the text the handler prints at
  line 129. When the console takes these two texts, no exception leaves the function,
  and on every failure of the body (an exception of the network or of the parser, a
  page without the expected structure, a print inside the \<open>try\<close>) the result is
  \<open>No Title\<close> with no elements. When the console takes every text, the loop over the
  candidate links requests every link and is left by no exception.
\<close>

theorem scrape_article_io_propagates:
  "(fst (scrape_article_io console lib link response) = Inl e \<longleftrightarrow>
      console (Echo (Scraping_article link)) = Some e \<or>
      (console (Echo (Scraping_article link)) = None \<and>
       (\<exists>e0. fst (scrape_body_io console lib link response) = Inl e0 \<and>
             console (Echo (Error_scraping link e0)) = Some e))) \<and>
   (console (Echo (Scraping_article link)) = None \<and>
    (\<forall>e0. console (Echo (Error_scraping link e0)) = None) \<longrightarrow>
      (\<exists>title elements.
         fst (scrape_article_io console lib link response) = Inr (title, elements)) \<and>
      (\<forall>e0. fst (scrape_body_io console lib link response) = Inl e0 \<longrightarrow>
         fst (scrape_article_io console lib link response) = Inr (u ''No Title'', [])) \<and>
      (\<forall>e0. scrape_body lib link response = Inl e0 \<longrightarrow>
         fst (scrape_article_io console lib link response) = Inr (u ''No Title'', []))) \<and>
   ((\<forall>t. console t = None) \<longrightarrow>
      (\<exists>st'. process_links_io console lib w source timestamp links st = (st', None) \<and>
             requests st' = requests st @ links))"
proof -
  have iff: "fst (scrape_article_io console lib link response) = Inl e \<longleftrightarrow>
      console (Echo (Scraping_article link)) = Some e \<or>
      (console (Echo (Scraping_article link)) = None \<and>
       (\<exists>e0. fst (scrape_body_io console lib link response) = Inl e0 \<and>
             console (Echo (Error_scraping link e0)) = Some e))"
    unfolding fst_scrape_article_io
    by (cases "console (Echo (Scraping_article link))";
        cases "fst (scrape_body_io console lib link response)")
       (auto split: option.splits)
  have quiet: "(\<exists>title elements.
         fst (scrape_article_io console lib link response) = Inr (title, elements)) \<and>
      (\<forall>e0. fst (scrape_body_io console lib link response) = Inl e0 \<longrightarrow>
         fst (scrape_article_io console lib link response) = Inr (u ''No Title'', [])) \<and>
      (\<forall>e0. scrape_body lib link response = Inl e0 \<longrightarrow>
         fst (scrape_article_io console lib link response) = Inr (u ''No Title'', []))"
    if "console (Echo (Scraping_article link)) = None"
      "\<forall>e0. console (Echo (Error_scraping link e0)) = None"
    unfolding fst_scrape_article_io using that
    by (cases "fst (scrape_body_io console lib link response)")
       (auto simp: scrape_body_io_Inl)
  have loop: "\<exists>st'. process_links_io console lib w source timestamp links st = (st', None) \<and>
             requests st' = requests st @ links" if "\<forall>t. console t = None"
  proof -
    have "console = (\<lambda>t. None)" using that by (rule accepting_console)
    then show ?thesis
      using process_links_completes by (simp add: process_links_io_accepting)
  qed
  show ?thesis using iff quiet loop by blast
qed

text \<open>
  On the console that takes every text: a request that times out, a page without an
  \<open>html\<close> tag, and the loop over the two links of the example world.
\<close>

theorem scrape_article_io_propagates_witness:
  "utf8_console (Echo (Scraping_article (u ''https://www.bbc.com/news/health-1''))) = None \<and>
   (\<forall>e0. utf8_console (Echo (Error_scraping (u ''https://www.bbc.com/news/health-1'') e0)) = None) \<and>
   scrape_body ascii_lib (u ''https://www.bbc.com/news/health-1'')
     (Raised (RequestException (u ''timed out''))) = Inl (RequestException (u ''timed out'')) \<and>
   fst (scrape_article_io utf8_console ascii_lib (u ''https://www.bbc.com/news/health-1'')
     (Raised (RequestException (u ''timed out'')))) = Inr (u ''No Title'', []) \<and>
   scrape_body ascii_lib (u ''https://www.bbc.com/news/health-1'') (Parsed page_no_html) =
     Inl AttributeError \<and>
   fst (scrape_article_io utf8_console ascii_lib (u ''https://www.bbc.com/news/health-1'')
     (Parsed page_no_html)) = Inr (u ''No Title'', []) \<and>
   (\<forall>t. utf8_console t = None) \<and>
   (\<exists>st'. process_links_io utf8_console ascii_lib example_world healthline
            (u ''20240101_120000'') two_links initial_state = (st', None) \<and>
          requests st' = requests initial_state @ two_links)"
proof -
  have a: "\<forall>t. utf8_console t = None"
    by (simp add: utf8_console_def)
  have b: "scrape_body ascii_lib (u ''https://www.bbc.com/news/health-1'')
     (Raised (RequestException (u ''timed out''))) = Inl (RequestException (u ''timed out''))"
    by (simp add: scrape_body_def)
  have c: "scrape_body ascii_lib (u ''https://www.bbc.com/news/health-1'') (Parsed page_no_html) =
     Inl AttributeError"
    by (simp add: page_no_html_def page_eval)
  from scrape_article_io_propagates[of utf8_console ascii_lib
      "u ''https://www.bbc.com/news/health-1''" "Raised (RequestException (u ''timed out''))"
      _ example_world healthline "u ''20240101_120000''" two_links initial_state]
    scrape_article_io_propagates[of utf8_console ascii_lib
      "u ''https://www.bbc.com/news/health-1''" "Parsed page_no_html"]
    a b c
  show ?thesis by blast
qed

text \<open>
  C2, as stated: a title element whose normalized text is empty gives the title
  \<open>No Title\<close>. On a page whose \<open>h1\<close> holds two spaces, the title element is found,
  its text normalizes to the empty string, and the title returned is the empty string.
\<close>

theorem blank_title_counterexample:
  "title_elem page_blank_title = Some blank_h1 \<and>
   clean_text ascii_lib (Some (get_text blank_h1)) False = [] \<and>
   scrape_article ascii_lib (u ''https://www.bbc.com/news/health-1'') (Parsed page_blank_title) =
     Inr (([], [Paragraph (u ''This is paragraph one ok.''),
                Paragraph (u ''This is paragraph two ok.'')]),
          [(INFO, Scraping_article (u ''https://www.bbc.com/news/health-1'')),
           (INFO, Scraped [] 2)]) \<and>
   [] \<noteq> u ''No Title''"
  by (simp add: page_blank_title_def blank_h1_def page_eval)

text \<open>
  C2, amended: on a page that passes the language gate, the title is \<open>No Title\<close> when
  the page has no title element (no \<open>h1\<close>, no \<open>title\<close> and no \<open>h2\<close>), and the
  normalized text of the title element when there is one, be it empty. On every other
  page (skipped by the gate, or failing) the title is \<open>No Title\<close>.
\<close>

theorem scrape_article_title:
  "\<exists>elements entries.
     scrape_article lib link (Parsed soup) =
       Inr ((if language_gate lib soup = Inr False
             then (case title_elem soup of
                     None \<Rightarrow> u ''No Title''
                   | Some e \<Rightarrow> clean_text lib (Some (get_text e)) False)
             else u ''No Title'', elements), entries)"
  by (cases "language_gate lib soup")
     (auto simp: scrape_article_Parsed fst_extract_article extract_title_def)

text \<open>A page with an \<open>h1\<close>: the title is its text.\<close>

theorem scrape_article_title_witness:
  "language_gate ascii_lib page_two_paragraphs = Inr False \<and>
   title_elem page_two_paragraphs =
     Some (Tag (u ''h1'') [] None [NavigableString (u ''Test, Article!!'')]) \<and>
   (\<exists>elements entries.
      scrape_article ascii_lib (u ''https://www.bbc.com/news/health-1'')
        (Parsed page_two_paragraphs) = Inr ((u ''Test, Article!!'', elements), entries))"
proof -
  have h: "language_gate ascii_lib page_two_paragraphs = Inr False"
    by (simp add: page_two_paragraphs_def page_eval)
  have t: "title_elem page_two_paragraphs =
     Some (Tag (u ''h1'') [] None [NavigableString (u ''Test, Article!!'')])"
    by (simp add: page_two_paragraphs_def page_eval)
  have c: "clean_text ascii_lib (Some (get_text
      (Tag (u ''h1'') [] None [NavigableString (u ''Test, Article!!'')]))) False =
      u ''Test, Article!!''"
    by (simp add: page_eval)
  from scrape_article_title[of ascii_lib "u ''https://www.bbc.com/news/health-1''"
      page_two_paragraphs]
  show ?thesis unfolding h t using c by simp
qed



text \<open>
  The language gate by cases. When the \<open>html\<close> tag of a page declares a language
  whose lower case is not empty and does not start with \<open>en\<close>, \<open>scrape_article\<close>
  returns \<open>No Title\<close> and no elements, whatever the page contains; the log entry is a
  warning, not an error, and the loop goes on with a warning of its own. When the
  \<open>html\<close> tag declares no language or an empty one, the result is that of the
  extraction. A page without an \<open>html\<close> tag ends in the handler of the \<open>try\<close>,
  with an error entry.
\<close>

lemma language_gate_cases:
  "(find_tag (u ''html'') soup = Some html \<and> attr_get html (u ''lang'') = Some v \<and>
    py_lower lib v \<noteq> [] \<and> \<not> prefix (u ''en'') (py_lower lib v) \<longrightarrow>
      scrape_article lib link (Parsed soup) =
        Inr ((u ''No Title'', []),
             [(INFO, Scraping_article link), (WARNING, Skipping_non_English link)]) \<and>
      handle_scraped lib w source timestamp link (u ''No Title'', []) st =
        st\<lparr>log := log st @ [(WARNING, No_content link)]\<rparr>) \<and>
   (find_tag (u ''html'') soup = Some html \<and>
    (attr_get html (u ''lang'') = None \<or> attr_get html (u ''lang'') = Some []) \<longrightarrow>
      scrape_article lib link (Parsed soup) =
        Inr (fst (extract_article lib link soup),
             (INFO, Scraping_article link) # snd (extract_article lib link soup))) \<and>
   (find_tag (u ''html'') soup = None \<longrightarrow>
      scrape_article lib link (Parsed soup) =
        Inr ((u ''No Title'', []),
             [(INFO, Scraping_article link), (ERROR, Error_scraping link AttributeError)]))"
  by (auto simp: scrape_article_Parsed language_gate_def handle_scraped_empty py_lower_def)

text \<open>
  A page with \<open>lang="FR"\<close> is skipped; the same page without the attribute is
  extracted; the page without an \<open>html\<close> tag ends in the handler.
\<close>

lemma language_gate_cases_example:
  "find_tag (u ''html'') page_french = Some french_html \<and>
   attr_get french_html (u ''lang'') = Some (u ''FR'') \<and>
   py_lower ascii_lib (u ''FR'') \<noteq> [] \<and> \<not> prefix (u ''en'') (py_lower ascii_lib (u ''FR'')) \<and>
   scrape_article ascii_lib (u ''https://www.bbc.com/news/health-1'') (Parsed page_french) =
     Inr ((u ''No Title'', []),
          [(INFO, Scraping_article (u ''https://www.bbc.com/news/health-1'')),
           (WARNING, Skipping_non_English (u ''https://www.bbc.com/news/health-1''))]) \<and>
   find_tag (u ''html'') page_no_lang = Some plain_html \<and>
   attr_get plain_html (u ''lang'') = None \<and>
   scrape_article ascii_lib (u ''https://www.bbc.com/news/health-1'') (Parsed page_no_lang) =
     Inr ((u ''Health report'',
           [Paragraph (u ''This is paragraph one ok.''), Paragraph (u ''This is paragraph two ok.'')]),
          [(INFO, Scraping_article (u ''https://www.bbc.com/news/health-1'')),
           (INFO, Scraped (u ''Health report'') 2)]) \<and>
   find_tag (u ''html'') page_no_html = None \<and>
   scrape_article ascii_lib (u ''https://www.bbc.com/news/health-1'') (Parsed page_no_html) =
     Inr ((u ''No Title'', []),
          [(INFO, Scraping_article (u ''https://www.bbc.com/news/health-1'')),
           (ERROR, Error_scraping (u ''https://www.bbc.com/news/health-1'') AttributeError)])"
proof -
  have f1: "find_tag (u ''html'') page_french = Some french_html"
    by (simp add: page_french_def french_html_def page_eval)
  have f2: "attr_get french_html (u ''lang'') = Some (u ''FR'')"
    by (simp add: french_html_def)
  have f3: "py_lower ascii_lib (u ''FR'') \<noteq> [] \<and> \<not> prefix (u ''en'') (py_lower ascii_lib (u ''FR''))"
    by (simp add: page_eval)
  have p1: "find_tag (u ''html'') page_no_lang = Some plain_html"
    by (simp add: page_no_lang_def plain_html_def page_eval)
  have p2: "attr_get plain_html (u ''lang'') = None"
    by (simp add: plain_html_def)
  have p3: "extract_article ascii_lib (u ''https://www.bbc.com/news/health-1'') page_no_lang =
     ((u ''Health report'',
       [Paragraph (u ''This is paragraph one ok.''), Paragraph (u ''This is paragraph two ok.'')]),
      [(INFO, Scraped (u ''Health report'') 2)])"
    by (simp add: page_no_lang_def plain_html_def page_eval)
  have n1: "find_tag (u ''html'') page_no_html = None"
    by (simp add: page_no_html_def page_eval)
  from language_gate_cases[of page_french french_html "u ''FR''" ascii_lib
      "u ''https://www.bbc.com/news/health-1''"] f1 f2 f3
  have a: "scrape_article ascii_lib (u ''https://www.bbc.com/news/health-1'') (Parsed page_french) =
     Inr ((u ''No Title'', []),
          [(INFO, Scraping_article (u ''https://www.bbc.com/news/health-1'')),
           (WARNING, Skipping_non_English (u ''https://www.bbc.com/news/health-1''))])"
    by blast
  from language_gate_cases[of page_no_lang plain_html _ ascii_lib
      "u ''https://www.bbc.com/news/health-1''"] p1 p2
  have b: "scrape_article ascii_lib (u ''https://www.bbc.com/news/health-1'') (Parsed page_no_lang) =
     Inr (fst (extract_article ascii_lib (u ''https://www.bbc.com/news/health-1'') page_no_lang),
          (INFO, Scraping_article (u ''https://www.bbc.com/news/health-1'')) #
          snd (extract_article ascii_lib (u ''https://www.bbc.com/news/health-1'') page_no_lang))"
    by blast
  from language_gate_cases[of page_no_html _ _ ascii_lib
      "u ''https://www.bbc.com/news/health-1''"] n1
  have c: "scrape_article ascii_lib (u ''https://www.bbc.com/news/health-1'') (Parsed page_no_html) =
     Inr ((u ''No Title'', []),
          [(INFO, Scraping_article (u ''https://www.bbc.com/news/health-1'')),
           (ERROR, Error_scraping (u ''https://www.bbc.com/news/health-1'') AttributeError)])"
    by blast
  show ?thesis
    using f1 f2 f3 a p1 p2 b n1 c unfolding p3 by simp
qed

text \<open>
  C4. A page that declares no language is not rejected by the language gate. The code
  at a page without an \<open>html\<close> tag, which carries a heading and two paragraphs long
  enough: no tag of the page declares a language, and the extraction of lines 93 to
  126 would return the title and the two paragraphs; but \<open>soup.find('html')\<close> is
  \<open>None\<close>, line 87 raises \<open>AttributeError\<close>, and \<open>scrape_article\<close> returns
  \<open>No Title\<close> and no elements, with an error entry in the log.
\<close>

theorem language_gate_no_html_tag:
  "find_tag (u ''html'') page_no_html = None \<and>
   list_all (\<lambda>x. attr_get x (u ''lang'') = None) (descendants page_no_html) \<and>
   language_gate ascii_lib page_no_html = Inl AttributeError \<and>
   extract_article ascii_lib (u ''https://www.bbc.com/news/health-1'') page_no_html =
     ((u ''Health report'',
       [Paragraph (u ''This is paragraph one ok.''), Paragraph (u ''This is paragraph two ok.'')]),
      [(INFO, Scraped (u ''Health report'') 2)]) \<and>
   scrape_article ascii_lib (u ''https://www.bbc.com/news/health-1'') (Parsed page_no_html) =
     Inr ((u ''No Title'', []),
          [(INFO, Scraping_article (u ''https://www.bbc.com/news/health-1'')),
           (ERROR, Error_scraping (u ''https://www.bbc.com/news/health-1'') AttributeError)])"
  by (simp add: page_no_html_def page_eval)

section \<open>Properties of the Link Classifier\<close>

lemmas link_eval =
  u_def py_split_def rstrip_slash_def url_host_def ascii_lib_def ascii_lower_def py_lower_def
  blocklist_def allow_rule_def classify_href_def

lemma py_in_iff: "py_in sub s \<longleftrightarrow> (\<exists>before after. s = before @ sub @ after)"
proof (induction s)
  case Nil
  then show ?case by auto
next
  case (Cons c cs)
  show ?case
  proof
    assume "py_in sub (c # cs)"
    then consider "prefix sub (c # cs)" | "py_in sub cs" by auto
    then show "\<exists>before after. c # cs = before @ sub @ after"
    proof cases
      case 1
      then obtain after where "c # cs = sub @ after" by (auto simp: prefix_def)
      then have "c # cs = [] @ sub @ after" by simp
      then show ?thesis by blast
    next
      case 2
      then obtain before after where "cs = before @ sub @ after" using Cons.IH by blast
      then have "c # cs = (c # before) @ sub @ after" by simp
      then show ?thesis by blast
    qed
  next
    assume "\<exists>before after. c # cs = before @ sub @ after"
    then obtain before after where e: "c # cs = before @ sub @ after" by blast
    show "py_in sub (c # cs)"
    proof (cases before)
      case Nil
      then have "prefix sub (c # cs)" using e by (simp add: prefix_def)
      then show ?thesis by simp
    next
      case (Cons b bs)
      then have "cs = bs @ sub @ after" using e by simp
      then show ?thesis using Cons.IH by auto
    qed
  qed
qed

lemma harvest_accepted:
  "harvest lib source hrefs (al, rl) = Inr (al', rl') \<Longrightarrow> link \<in> set al' \<Longrightarrow>
   link \<in> set al \<or>
   (\<exists>h\<in>set hrefs. urljoin lib (url source) h = Inr link \<and>
      classify_href lib source link = Inr Accepted)"
proof (induction hrefs arbitrary: al rl)
  case Nil
  then show ?case by simp
next
  case (Cons h hs)
  from Cons.prems(1) obtain href where j: "urljoin lib (url source) h = Inr href"
    by (auto split: sum.splits)
  from Cons.prems(1) j obtain v where c: "classify_href lib source href = Inr v"
    by (auto split: sum.splits)
  show ?case
  proof (cases v)
    case Accepted
    with Cons.prems j c have "harvest lib source hs (al @ [href], rl) = Inr (al', rl')" by simp
    from Cons.IH[OF this Cons.prems(2)] show ?thesis using j c Accepted by auto
  next
    case Rejected
    with Cons.prems j c have "harvest lib source hs (al, rl @ [href]) = Inr (al', rl')" by simp
    from Cons.IH[OF this Cons.prems(2)] show ?thesis by auto
  next
    case Ignored
    with Cons.prems j c have "harvest lib source hs (al, rl) = Inr (al', rl')" by simp
    from Cons.IH[OF this Cons.prems(2)] show ?thesis by auto
  qed
qed

lemma classify_href_Accepted:
  "classify_href lib source link = Inr Accepted \<Longrightarrow>
   \<exists>host. url_host (url source) = Inr host \<and> py_in host link \<and> prefix (u ''http'') link \<and>
     \<not> list_ex (\<lambda>exclude. py_in exclude (py_lower lib link)) blocklist \<and>
     allow_rule lib source link"
  by (auto simp: classify_href_def split: if_splits sum.splits)

lemma set_set_to_list: "set (set_to_list lib xs) = set xs"
  by (simp add: set_to_list_def)

lemma distinct_set_to_list: "distinct (set_to_list lib xs)"
  by (simp add: set_to_list_def)

lemma length_set_to_list: "length (set_to_list lib xs) = card (set xs)"
  by (simp add: set_to_list_def length_remdups_card_conv)

lemma set_dedupe_cap: "set (dedupe_cap lib m xs) \<subseteq> set xs"
  using set_take_subset[of _ "set_to_list lib xs"]
  by (auto simp: dedupe_cap_def py_slice_to_def set_set_to_list)

lemma distinct_dedupe_cap: "distinct (dedupe_cap lib m xs)"
  by (simp add: dedupe_cap_def py_slice_to_def distinct_set_to_list)

lemma length_dedupe_cap_nonneg:
  "0 \<le> m \<Longrightarrow> int (length (dedupe_cap lib m xs)) = min (int (card (set xs))) m"
  by (auto simp: dedupe_cap_def py_slice_to_def length_set_to_list min_def)

lemma link_classifier_harvest:
  "harvest lib source hrefs ([], []) = Inr (accepted, rejected) \<Longrightarrow>
   link_classifier lib source hrefs m = Inr (dedupe_cap lib m accepted, rejected)"
  by (simp add: link_classifier_def)

lemma nat_int_minus: "nat (int n - int k) = n - k"
  by arith

lemma dedupe_cap_negative:
  "0 < k \<Longrightarrow>
   dedupe_cap lib (- int k) xs = rev (drop k (rev (set_to_list lib xs)))"
  by (simp add: dedupe_cap_def py_slice_to_def drop_rev nat_int_minus)

lemma harvest_one_foreign:
  "harvest ascii_lib healthline [u ''https://twitter.com/share?url=https://www.healthline.com/health-news/story''] ([], []) =
     Inr ([u ''https://twitter.com/share?url=https://www.healthline.com/health-news/story''], [])"
  by (simp add: healthline_def link_eval)

lemma harvest_ten:
  "harvest (ascii_lib\<lparr>set_slot := slot\<rparr>) healthline ten_hrefs ([], []) = Inr (three_links, [])"
  by (simp add: healthline_def ten_hrefs_def three_links_def link_eval)

lemma a_hrefs_listing_page:
  "a_hrefs listing_page =
     [u ''https://www.healthline.com/health-news/new-study-on-sleep'', about_link,
      u ''https://www.healthline.com/health-news/story-of-a-cure'',
      u ''https://www.healthline.com/login'']"
  by (simp add: a_hrefs_def listing_page_def find_all_def List.map_filter_def u_def)

lemma harvest_listing_page:
  "harvest ascii_lib healthline (a_hrefs listing_page) ([], []) = Inr (two_links, [about_link])"
  unfolding a_hrefs_listing_page
  by (simp add: healthline_def two_links_def about_link_def link_eval)

text \<open>
  C1, as stated: the host of an accepted URL contains the host of the listing URL.
  For the source Healthline the classifier accepts a share link on another host, whose
  query contains \<open>www.healthline.com\<close>; the host is computed as the scraper computes
  the host of a listing URL.
\<close>

theorem same_site_filter_counterexample:
  "healthline \<in> set SOURCES \<and>
   link_classifier ascii_lib healthline
     [u ''https://twitter.com/share?url=https://www.healthline.com/health-news/story''] 1 =
     Inr ([u ''https://twitter.com/share?url=https://www.healthline.com/health-news/story''], []) \<and>
   url_host (url healthline) = Inr (u ''www.healthline.com'') \<and>
   url_host (u ''https://twitter.com/share?url=https://www.healthline.com/health-news/story'') = Inr (u ''twitter.com'') \<and>
   \<not> py_in (u ''www.healthline.com'') (u ''twitter.com'')"
proof -
  have "healthline \<in> set SOURCES"
    by (simp add: healthline_def SOURCES_def)
  moreover have "link_classifier ascii_lib healthline
     [u ''https://twitter.com/share?url=https://www.healthline.com/health-news/story''] 1 =
     Inr ([u ''https://twitter.com/share?url=https://www.healthline.com/health-news/story''], [])"
    using harvest_one_foreign
    by (simp add: link_classifier_def dedupe_cap_def py_slice_to_def set_to_list_def ascii_lib_def)
  moreover have "url_host (url healthline) = Inr (u ''www.healthline.com'')"
    by (simp add: healthline_def link_eval)
  moreover have "url_host (u ''https://twitter.com/share?url=https://www.healthline.com/health-news/story'') =
      Inr (u ''twitter.com'')"
    by (simp add: link_eval)
  moreover have "\<not> py_in (u ''www.healthline.com'') (u ''twitter.com'')"
    by (simp add: u_def)
  ultimately show ?thesis by simp
qed

text \<open>
  C1, amended: every candidate link the classifier returns is the resolved URL of an
  \<open>href\<close> of the listing page, starts with \<open>http\<close>, and contains the host of the
  listing URL as a substring somewhere in the URL (not necessarily in its host).
\<close>

theorem accepted_link_contains_host:
  "link_classifier lib source hrefs m = Inr (article_links, rejected_links) \<Longrightarrow>
   link \<in> set article_links \<Longrightarrow>
   \<exists>host. url_host (url source) = Inr host \<and> py_in host link \<and> prefix (u ''http'') link \<and>
     (\<exists>h\<in>set hrefs. urljoin lib (url source) h = Inr link)"
proof -
  assume lc: "link_classifier lib source hrefs m = Inr (article_links, rejected_links)"
    and mem: "link \<in> set article_links"
  from lc obtain accepted where
    h: "harvest lib source hrefs ([], []) = Inr (accepted, rejected_links)" and
    a: "article_links = dedupe_cap lib m accepted"
    by (auto simp: link_classifier_def split: sum.splits)
  from mem a have "link \<in> set accepted" using set_dedupe_cap by blast
  from harvest_accepted[OF h this] obtain h' where
    "h' \<in> set hrefs" "urljoin lib (url source) h' = Inr link"
    "classify_href lib source link = Inr Accepted" by auto
  then show ?thesis using classify_href_Accepted by blast
qed

text \<open>The first candidate of the listing of ten links.\<close>

theorem accepted_link_contains_host_witness:
  "link_classifier ascii_lib healthline ten_hrefs 1 =
     Inr ([u ''https://www.healthline.com/health-news/new-study-on-sleep''], []) \<and>
   (\<exists>host. url_host (url healthline) = Inr host \<and>
      py_in host (u ''https://www.healthline.com/health-news/new-study-on-sleep'') \<and>
      prefix (u ''http'') (u ''https://www.healthline.com/health-news/new-study-on-sleep'') \<and>
      (\<exists>h\<in>set ten_hrefs. urljoin ascii_lib (url healthline) h =
         Inr (u ''https://www.healthline.com/health-news/new-study-on-sleep'')))"
proof -
  have "harvest ascii_lib healthline ten_hrefs ([], []) = Inr (three_links, [])"
    using harvest_ten[of "\<lambda>xs x. 0"] by (simp add: ascii_lib_def)
  then have lc: "link_classifier ascii_lib healthline ten_hrefs 1 =
     Inr ([u ''https://www.healthline.com/health-news/new-study-on-sleep''], [])"
    by (simp add: link_classifier_def dedupe_cap_def py_slice_to_def set_to_list_def
        three_links_def ascii_lib_def u_def)
  from accepted_link_contains_host[OF lc, of "u ''https://www.healthline.com/health-news/new-study-on-sleep''"]
  show ?thesis using lc by simp
qed

text \<open>
  C5, as stated: for every \<open>max_articles_per_source\<close> the number of candidates is at
  most that value, and \<open>min(3, max_articles_per_source)\<close> on the listing of ten links.
  With the value \<open>-1\<close> the classifier returns two candidates (which two of the three
  depends on the iteration order of the set).
\<close>

theorem negative_cap_counterexample:
  "harvest ascii_lib healthline ten_hrefs ([], []) = Inr (three_links, []) \<and>
   link_classifier ascii_lib healthline ten_hrefs (- 1) =
     Inr ([u ''https://www.healthline.com/health-news/new-study-on-sleep'',
           u ''https://www.healthline.com/health-news/story-of-a-cure''], []) \<and>
   \<not> int (length [u ''https://www.healthline.com/health-news/new-study-on-sleep'',
                   u ''https://www.healthline.com/health-news/story-of-a-cure'']) \<le> - 1 \<and>
   int (length [u ''https://www.healthline.com/health-news/new-study-on-sleep'',
                u ''https://www.healthline.com/health-news/story-of-a-cure'']) \<noteq> min 3 (- 1)"
proof -
  have h: "harvest ascii_lib healthline ten_hrefs ([], []) = Inr (three_links, [])"
    using harvest_ten[of "\<lambda>xs x. 0"] by (simp add: ascii_lib_def)
  then have "link_classifier ascii_lib healthline ten_hrefs (- 1) =
     Inr ([u ''https://www.healthline.com/health-news/new-study-on-sleep'',
           u ''https://www.healthline.com/health-news/story-of-a-cure''], [])"
    by (simp add: link_classifier_def dedupe_cap_def py_slice_to_def set_to_list_def
        three_links_def ascii_lib_def u_def)
  then show ?thesis using h by simp
qed

text \<open>
  C5, amended: the candidate links have no duplicates, for every value of
  \<open>max_articles_per_source\<close>; when this value is not negative, there are at most that
  many candidates, exactly the minimum of it and the number of different URLs that
  passed the filters. For a listing of 10 links of which 3 pass the default rule and
  7 are blocklisted that is \<open>min(3, max_articles_per_source)\<close>.
\<close>

theorem link_classifier_dedupe_cap:
  "harvest lib source hrefs ([], []) = Inr (accepted, rejected) \<Longrightarrow>
   link_classifier lib source hrefs m = Inr (dedupe_cap lib m accepted, rejected) \<and>
   distinct (dedupe_cap lib m accepted) \<and>
   (0 \<le> m \<longrightarrow>
      int (length (dedupe_cap lib m accepted)) \<le> m \<and>
      int (length (dedupe_cap lib m accepted)) = min (int (card (set accepted))) m)"
  by (simp add: link_classifier_harvest distinct_dedupe_cap length_dedupe_cap_nonneg)

text \<open>
  The listing of ten links for the source Healthline, with the set iterating in the
  order of the lengths of the links: two candidates for a cap of 2, three for a cap of 5.
\<close>

theorem link_classifier_dedupe_cap_witness:
  "harvest (ascii_lib\<lparr>set_slot := (\<lambda>xs x. length x)\<rparr>) healthline ten_hrefs ([], []) =
     Inr (three_links, []) \<and>
   card (set three_links) = 3 \<and>
   link_classifier (ascii_lib\<lparr>set_slot := (\<lambda>xs x. length x)\<rparr>) healthline ten_hrefs 2 =
     Inr (dedupe_cap (ascii_lib\<lparr>set_slot := (\<lambda>xs x. length x)\<rparr>) 2 three_links, []) \<and>
   int (length (dedupe_cap (ascii_lib\<lparr>set_slot := (\<lambda>xs x. length x)\<rparr>) 2 three_links)) = min 3 2 \<and>
   int (length (dedupe_cap (ascii_lib\<lparr>set_slot := (\<lambda>xs x. length x)\<rparr>) 5 three_links)) = min 3 5"
proof -
  let ?lib = "ascii_lib\<lparr>set_slot := (\<lambda>xs x. length x)\<rparr>"
  have h: "harvest ?lib healthline ten_hrefs ([], []) = Inr (three_links, [])"
    by (rule harvest_ten)
  have c: "card (set three_links) = 3"
    by (simp add: three_links_def u_def)
  from link_classifier_dedupe_cap[OF h, of 2] link_classifier_dedupe_cap[OF h, of 5]
  show ?thesis using h c by simp
qed

text \<open>
  C10. With \<open>max_articles_per_source = 0\<close> the classifier keeps no candidate, and the
  source is logged as having no valid links (with the first five rejected links) and
  left without a request for an article. With a negative value \<open>-k\<close> the slice keeps
  the deduplicated links but the last \<open>k\<close>, so their number is the number of different
  links less \<open>k\<close>, which the absolute value of the flag does not bound: of three links
  the value \<open>-1\<close> keeps two.
\<close>

theorem cap_zero_and_negative:
  "dedupe_cap lib 0 accepted = [] \<and>
   (http_get w (length (requests st)) (url source) = Parsed soup \<and>
    harvest lib source (a_hrefs soup) ([], []) = Inr (accepted, rejected) \<longrightarrow>
      process_source lib w 0 timestamp source st =
        st\<lparr>log := log st @
              [(INFO, Fetching_from (name source) (url source)),
               (WARNING, No_valid_links (name source) (take 5 rejected))],
           requests := requests st @ [url source]\<rparr>) \<and>
   (0 < k \<longrightarrow>
      dedupe_cap lib (- int k) accepted = rev (drop k (rev (set_to_list lib accepted))) \<and>
      length (dedupe_cap lib (- int k) accepted) = card (set accepted) - k) \<and>
   length (dedupe_cap ascii_lib (- 1) three_links) = 2"
proof -
  have zero: "dedupe_cap lib 0 accepted = []"
    by (simp add: dedupe_cap_def py_slice_to_def)
  have skipped: "process_source lib w 0 timestamp source st =
        st\<lparr>log := log st @
              [(INFO, Fetching_from (name source) (url source)),
               (WARNING, No_valid_links (name source) (take 5 rejected))],
           requests := requests st @ [url source]\<rparr>"
    if "http_get w (length (requests st)) (url source) = Parsed soup"
      "harvest lib source (a_hrefs soup) ([], []) = Inr (accepted, rejected)"
    using that by (simp add: process_source_def link_classifier_def zero Let_def)
  have neg: "dedupe_cap lib (- int k) accepted = rev (drop k (rev (set_to_list lib accepted))) \<and>
      length (dedupe_cap lib (- int k) accepted) = card (set accepted) - k" if "0 < k"
    using that by (simp add: dedupe_cap_negative length_set_to_list)
  have "length (dedupe_cap ascii_lib (- 1) three_links) = 2"
    by (simp add: dedupe_cap_def py_slice_to_def set_to_list_def three_links_def ascii_lib_def u_def)
  then show ?thesis using zero skipped neg by blast
qed

text \<open>
  The listing page of the example world with a cap of 0, and its two links with a cap
  of \<open>-1\<close>.
\<close>

theorem cap_zero_and_negative_witness:
  "http_get example_world (length (requests initial_state)) (url healthline) =
     Parsed listing_page \<and>
   harvest ascii_lib healthline (a_hrefs listing_page) ([], []) = Inr (two_links, [about_link]) \<and>
   process_source ascii_lib example_world 0 (u ''20240101_120000'') healthline initial_state =
     initial_state\<lparr>log := log initial_state @
         [(INFO, Fetching_from (name healthline) (url healthline)),
          (WARNING, No_valid_links (name healthline) (take 5 [about_link]))],
       requests := requests initial_state @ [url healthline]\<rparr> \<and>
   (0::nat) < 1 \<and>
   dedupe_cap ascii_lib (- int 1) two_links =
     rev (drop 1 (rev (set_to_list ascii_lib two_links))) \<and>
   length (dedupe_cap ascii_lib (- int 1) two_links) = card (set two_links) - 1"
proof -
  have g: "http_get example_world (length (requests initial_state)) (url healthline) =
      Parsed listing_page"
    by (simp add: example_world_def)
  have k: "(0::nat) < 1" by simp
  from cap_zero_and_negative[of ascii_lib two_links example_world initial_state healthline
      listing_page "[about_link]" "u ''20240101_120000''" 1]
    g harvest_listing_page k
  show ?thesis by blast
qed

section \<open>Properties of a run\<close>









lemma run_invariant_log [simp]:
  "run_invariant timestamp (st\<lparr>log := l\<rparr>) = run_invariant timestamp st"
  by (simp add: run_invariant_def)

lemma run_invariant_requests [simp]:
  "run_invariant timestamp (st\<lparr>requests := r\<rparr>) = run_invariant timestamp st"
  by (simp add: run_invariant_def)
















end
